theory Spec2Isabelle
  imports Main "HOL-Library.Word" "HOL-Library.Signed_Division"
begin

unbundle bit_operations_syntax

section \<open>Machine types\<close>

text \<open>
  The program is C for Linux on an LP64 target. A C \<open>int\<close> is a 32-bit word read in two's
  complement (\<open>sint\<close>, \<open><s\<close>, \<open>\<le>s\<close>); \<open>time_t\<close> and \<open>long\<close> are 64-bit words;
  \<open>uint8_t\<close> is an 8-bit word. Arithmetic on words wraps around.
\<close>

type_synonym cint = "32 word"
type_synonym clong = "64 word"
type_synonym uint8 = "8 word"

section \<open>utils.c\<close>

text \<open>
  \<^verbatim>\<open>int clamp(int value, int min, int max)\<close>: the upper bound is tested first, then the
  lower one; there is no swap of the bounds.
\<close>

definition clamp :: "cint \<Rightarrow> cint \<Rightarrow> cint \<Rightarrow> cint" where
  "clamp val vmin vmax =
     (if vmax <s val then vmax
      else if val <s vmin then vmin
      else val)"

section \<open>serial.c\<close>

subsection \<open>Constants\<close>

text \<open>
  The modem-line bits of \<^verbatim>\<open><sys/ioctl.h>\<close> on Linux.
\<close>

definition TIOCM_DTR :: cint where "TIOCM_DTR = 0x002"
definition TIOCM_RTS :: cint where "TIOCM_RTS = 0x004"
definition TIOCM_CTS :: cint where "TIOCM_CTS = 0x020"
definition TIOCM_DSR :: cint where "TIOCM_DSR = 0x100"

text \<open>
  Modelled from the spec: \<^verbatim>\<open>NS_FULL_SECOND\<close> is a macro of \<^verbatim>\<open>serial.h\<close>, which is not among
  the sources. The specification describes it as one full second in nanoseconds.
\<close>

definition NS_FULL_SECOND :: clong where
  "NS_FULL_SECOND = 1000000000"

text \<open>
  \<^verbatim>\<open>uint8_t pkt_intellimouse_intro[] = "\x4D\x5A";\<close> An array of unknown bound that is
  initialised from a string literal takes the literal's size, which counts the terminating
  NUL: the array has three elements and \<^verbatim>\<open>sizeof(pkt_intellimouse_intro)\<close> is 3.
\<close>

definition pkt_intellimouse_intro :: "uint8 list" where
  "pkt_intellimouse_intro = [0x4D, 0x5A, 0x00]"

definition sizeof_pkt_intellimouse_intro :: cint where
  "sizeof_pkt_intellimouse_intro = word_of_nat (length pkt_intellimouse_intro)"

subsection \<open>Writing\<close>

text \<open>
  The serial line is modelled by the list of bytes written to it so far.
  \<^verbatim>\<open>serial_write\<close> writes \<^verbatim>\<open>buffer[i]\<close> for \<^verbatim>\<open>i = 0 .. size - 1\<close>, one \<^verbatim>\<open>write\<close> per byte, and
  counts every iteration whatever \<^verbatim>\<open>write\<close> returned. An index past the end of the buffer is
  undefined behaviour in C; the model writes nothing for it (no caller asks for more bytes than
  the buffer holds).
\<close>

fun serial_write_loop :: "uint8 list \<Rightarrow> uint8 list \<Rightarrow> nat \<Rightarrow> nat \<Rightarrow> uint8 list \<times> nat" where
  "serial_write_loop line buffer 0 written = (line, written)"
| "serial_write_loop line [] (Suc n) written = (line, written + Suc n)"
| "serial_write_loop line (b # buffer) (Suc n) written =
     serial_write_loop (line @ [b]) buffer n (Suc written)"

definition serial_write :: "uint8 list \<Rightarrow> uint8 list \<Rightarrow> cint \<Rightarrow> uint8 list \<times> cint" where
  "serial_write line buffer sz =
     (case serial_write_loop line buffer (nat (sint sz)) 0 of
        (line', written) \<Rightarrow> (line', word_of_nat written))"

subsection \<open>Control lines\<close>

text \<open>
  \<^verbatim>\<open>get_pin\<close>: the result of \<^verbatim>\<open>ioctl(fd, TIOCMGET, &serial_state)\<close> is an input of the model,
  \<open>None\<close> when the call fails and \<open>Some serial_state\<close> otherwise.
\<close>

definition get_pin :: "cint option \<Rightarrow> cint \<Rightarrow> cint" where
  "get_pin ioctl_result flag =
     (case ioctl_result of
        None \<Rightarrow> - 1
      | Some serial_state \<Rightarrow> (if serial_state AND flag \<noteq> 0 then 1 else 0))"

text \<open>
  \<^verbatim>\<open>wait_pin_state\<close> polls until \<^verbatim>\<open>get_pin\<close> returns the desired state. The readings of the
  control-line register are an input: the list of the results of the successive \<^verbatim>\<open>ioctl\<close>
  calls. The function returns the readings that are left once the desired state was seen, and
  \<open>None\<close> when the list ends before that (the loop is still polling). The local
  \<^verbatim>\<open>pin_state\<close> starts at \<open>-1\<close>, so with \<^verbatim>\<open>desired_state = -1\<close> no reading is taken.
\<close>

fun wait_pin_loop :: "cint option list \<Rightarrow> cint \<Rightarrow> cint \<Rightarrow> cint option list option" where
  "wait_pin_loop [] flag desired_state = None"
| "wait_pin_loop (r # readings) flag desired_state =
     (if get_pin r flag = desired_state then Some readings
      else wait_pin_loop readings flag desired_state)"

definition wait_pin_state :: "cint option list \<Rightarrow> cint \<Rightarrow> cint \<Rightarrow> cint option list option" where
  "wait_pin_state readings flag desired_state =
     (if desired_state = - 1 then Some readings
      else wait_pin_loop readings flag desired_state)"

subsection \<open>Identification\<close>

text \<open>
  \<^verbatim>\<open>mouse_ident\<close>: unless \<^verbatim>\<open>immediate\<close> is set, wait for CTS and DSR low, then for CTS high;
  then write the introduction, \<^verbatim>\<open>sizeof(pkt_intellimouse_intro)\<close> bytes of it when the wheel is
  enabled and one byte otherwise. The result is \<open>None\<close> while the function is still waiting.
\<close>

definition mouse_ident ::
  "cint option list \<Rightarrow> uint8 list \<Rightarrow> cint \<Rightarrow> cint \<Rightarrow> (cint option list \<times> uint8 list) option" where
  "mouse_ident readings line wheel_enabled immediate =
     (case (if immediate = 0
            then (case wait_pin_state readings (TIOCM_CTS OR TIOCM_DSR) 0 of
                    None \<Rightarrow> None
                  | Some readings1 \<Rightarrow> wait_pin_state readings1 TIOCM_CTS 1)
            else Some readings) of
        None \<Rightarrow> None
      | Some readings2 \<Rightarrow>
          (if wheel_enabled \<noteq> 0
           then Some (readings2,
                  fst (serial_write line pkt_intellimouse_intro sizeof_pkt_intellimouse_intro))
           else Some (readings2, fst (serial_write line pkt_intellimouse_intro 1))))"

subsection \<open>Time\<close>

record timespec =
  tv_sec :: clong
  tv_nsec :: clong

text \<open>
  \<^verbatim>\<open>timespec_diff(ts1, ts2, result)\<close>: field-wise difference, then one second is borrowed when
  the nanosecond difference is negative.
\<close>

definition timespec_diff :: "timespec \<Rightarrow> timespec \<Rightarrow> timespec" where
  "timespec_diff ts1 ts2 =
     (let sec = tv_sec ts1 - tv_sec ts2;
          nsec = tv_nsec ts1 - tv_nsec ts2
      in if nsec <s 0
         then \<lparr>tv_sec = sec - 1, tv_nsec = nsec + NS_FULL_SECOND\<rparr>
         else \<lparr>tv_sec = sec, tv_nsec = nsec\<rparr>)"

text \<open>
  \<^verbatim>\<open>get_target_time(delay)\<close>: the clock reading is the first argument. \<^verbatim>\<open>now_nsec\<close> is a
  \<^verbatim>\<open>uint32_t\<close>; the remainder is C's, on \<^verbatim>\<open>long\<close>, and truncates towards zero.
\<close>

definition get_target_time :: "timespec \<Rightarrow> 32 word \<Rightarrow> timespec" where
  "get_target_time time delay =
     (let now_nsec = (ucast (tv_nsec time) :: 32 word);
          nsec = (word_of_int (sint (tv_nsec time + ucast delay) smod sint NS_FULL_SECOND) :: clong)
      in if nsec <s ucast now_nsec
         then \<lparr>tv_sec = tv_sec time + 1, tv_nsec = nsec\<rparr>
         else \<lparr>tv_sec = tv_sec time, tv_nsec = nsec\<rparr>)"

section \<open>amouse.c\<close>

subsection \<open>Options\<close>

text \<open>
  \<^verbatim>\<open>struct opts\<close>. The fields carry the prefix \<open>opt_\<close>, since the mouse state below has a
  field \<^verbatim>\<open>wheel\<close> as well. A path is \<open>None\<close> while the pointer is \<^verbatim>\<open>NULL\<close>.
\<close>

record opts =
  opt_mousepath :: "string option"
  opt_serialpath :: "string option"
  opt_wheel :: cint
  opt_exclusive :: cint
  opt_immediate :: cint
  opt_debug :: cint

text \<open>The options as \<^verbatim>\<open>calloc\<close> returns them in \<^verbatim>\<open>main\<close>: all fields zero.\<close>

definition calloc_opts :: opts where
  "calloc_opts =
     \<lparr>opt_mousepath = None, opt_serialpath = None, opt_wheel = 0, opt_exclusive = 0,
      opt_immediate = 0, opt_debug = 0\<rparr>"

text \<open>
  What the program prints: \<open>Help\<close> is the text of \<^verbatim>\<open>showhelp\<close> (\<^verbatim>\<open>printf\<close>, standard
  output), \<open>Stderr\<close> a line written with \<^verbatim>\<open>fprintf(stderr, ...)\<close>.
\<close>

datatype printed = Help | Stderr string

text \<open>
  \<^verbatim>\<open>parse_opts\<close>. The library function \<^verbatim>\<open>getopt\<close> is an input: the list of its successive
  results before \<open>-1\<close>, each the option character it returned together with \<^verbatim>\<open>optarg\<close>. The
  result is the output and either the status passed to \<^verbatim>\<open>exit\<close> (\<open>Inl\<close>) or the options
  (\<open>Inr\<close>). \<^verbatim>\<open>strndup(optarg, 4096)\<close> copies at most 4096 characters.
\<close>

fun parse_opts_loop ::
  "(char \<times> string) list \<Rightarrow> opts \<Rightarrow> printed list \<Rightarrow> printed list \<times> (int + opts)" where
  "parse_opts_loop [] options out = (out, Inr options)"
| "parse_opts_loop ((option_index, optarg) # rest) options out =
     (let options = options\<lparr>opt_wheel := 1, opt_exclusive := 1\<rparr>
      in if option_index = CHR ''m''
           then parse_opts_loop rest (options\<lparr>opt_mousepath := Some (take 4096 optarg)\<rparr>) out
         else if option_index = CHR ''s''
           then parse_opts_loop rest (options\<lparr>opt_serialpath := Some (take 4096 optarg)\<rparr>) out
         else if option_index = CHR ''h''
           then (out @ [Help], Inl 0)
         else if option_index = CHR ''w''
           then parse_opts_loop rest (options\<lparr>opt_wheel := 0\<rparr>) out
         else if option_index = CHR ''e''
           then parse_opts_loop rest (options\<lparr>opt_exclusive := 0\<rparr>) out
         else if option_index = CHR ''i''
           then parse_opts_loop rest (options\<lparr>opt_immediate := 1\<rparr>) out
         else if option_index = CHR ''d''
           then parse_opts_loop rest (options\<lparr>opt_debug := 1\<rparr>) out
         else parse_opts_loop rest options
                (out @ [Stderr ''Invalid option on commandline, ignoring.'']))"

definition parse_opts :: "(char \<times> string) list \<Rightarrow> opts \<Rightarrow> printed list \<times> (int + opts)" where
  "parse_opts getopts options0 =
     (case parse_opts_loop getopts options0 [] of
        (out, Inl status) \<Rightarrow> (out, Inl status)
      | (out, Inr options) \<Rightarrow>
          (let (out1, quit1) =
                 (if opt_mousepath options = None
                  then (out @ [Stderr ''You must define a path with -m to your mouse /dev/input/* file.''],
                        1 :: cint)
                  else (out, 0));
               (out2, quit2) =
                 (if opt_serialpath options = None
                  then (out1 @ [Stderr ''You must define a path with -s to your serial port /dev/tty* file.''],
                        1)
                  else (out1, quit1))
           in if quit2 \<noteq> 0 then (out2, Inl 0) else (out2, Inr options)))"

text \<open>
  The start of \<^verbatim>\<open>main\<close>, up to the return of \<^verbatim>\<open>parse_opts\<close>: with \<^verbatim>\<open>argc < 2\<close> the help is
  shown and the program exits with status 0. The devices are opened and the main loop is
  entered only after \<^verbatim>\<open>parse_opts\<close> has returned, that is on a result \<open>Inr\<close>. A failure of
  \<^verbatim>\<open>calloc\<close> is not part of the model.
\<close>

definition main_options :: "nat \<Rightarrow> (char \<times> string) list \<Rightarrow> printed list \<times> (int + opts)" where
  "main_options argc getopts =
     (if argc < 2 then ([Help], Inl 0) else parse_opts getopts calloc_opts)"

subsection \<open>Mouse state and input events\<close>

text \<open>
  \<^verbatim>\<open>mouse_state_t\<close>, its fields with the prefix \<open>mouse_\<close>. The packet \<^verbatim>\<open>uint8_t state[4]\<close> is
  a list of bytes.
\<close>

record mouse_state_t =
  mouse_pc_state :: cint
  mouse_state :: "uint8 list"
  mouse_x :: cint
  mouse_y :: cint
  mouse_wheel :: cint
  mouse_update :: cint
  mouse_lmb :: cint
  mouse_rmb :: cint
  mouse_mmb :: cint
  mouse_force_update :: cint

text \<open>\<^verbatim>\<open>struct input_event\<close> and the event codes of \<^verbatim>\<open><linux/input-event-codes.h>\<close>.\<close>

record input_event =
  ev_type :: "16 word"
  ev_code :: "16 word"
  ev_value :: cint

definition EV_KEY :: "16 word" where "EV_KEY = 0x01"
definition EV_REL :: "16 word" where "EV_REL = 0x02"
definition BTN_LEFT :: "16 word" where "BTN_LEFT = 0x110"
definition BTN_RIGHT :: "16 word" where "BTN_RIGHT = 0x111"
definition BTN_MIDDLE :: "16 word" where "BTN_MIDDLE = 0x112"
definition REL_X :: "16 word" where "REL_X = 0x00"
definition REL_Y :: "16 word" where "REL_Y = 0x01"
definition REL_WHEEL :: "16 word" where "REL_WHEEL = 0x08"

text \<open>
  The macros of \<^verbatim>\<open>serial.h\<close> that \<^verbatim>\<open>main\<close> uses. The header is not among the sources, so
  their values are parameters of the model: the bit positions of the three buttons and the two
  delays between packets.
\<close>

record serial_h =
  MOUSE_LMB_BIT :: nat
  MOUSE_RMB_BIT :: nat
  MOUSE_MMB_BIT :: nat
  SERIALDELAY_3B :: "32 word"
  SERIALDELAY_4B :: "32 word"

text \<open>
  \<^verbatim>\<open>uint8_t init_mouse_state[] = "\x40\x00\x00\x00";\<close> has five elements, the literal's
  four and the terminating NUL; \<^verbatim>\<open>memcpy(mouse.state, init_mouse_state, sizeof(mouse.state))\<close>
  copies the first four.
\<close>

definition init_mouse_state :: "uint8 list" where
  "init_mouse_state = [0x40, 0x00, 0x00, 0x00, 0x00]"

definition reset_packet :: "mouse_state_t \<Rightarrow> mouse_state_t" where
  "reset_packet mouse = mouse\<lparr>mouse_state := take 4 init_mouse_state\<rparr>"

subsection \<open>Flow control\<close>

definition push_update :: "mouse_state_t \<Rightarrow> cint \<Rightarrow> mouse_state_t" where
  "push_update mouse full_packet =
     (if full_packet \<noteq> 0 \<or> mouse_update mouse = 3
      then mouse\<lparr>mouse_update := 3\<rparr>
      else mouse\<lparr>mouse_update := 2\<rparr>)"

subsection \<open>The main loop\<close>

text \<open>
  The dispatch of one input event (the branches on \<^verbatim>\<open>ev.type\<close> and \<^verbatim>\<open>ev.code\<close>). After the
  \<^verbatim>\<open>switch\<close> on the code of a relative event, \<^verbatim>\<open>push_update(&mouse, mouse.mmb)\<close> runs for
  every code.
\<close>

definition handle_event :: "opts \<Rightarrow> input_event \<Rightarrow> mouse_state_t \<Rightarrow> mouse_state_t" where
  "handle_event options ev mouse =
     (if ev_type ev = EV_KEY then
        (if ev_code ev = BTN_LEFT then
           push_update (mouse\<lparr>mouse_lmb := ev_value ev, mouse_force_update := 1\<rparr>)
             (mouse_mmb mouse)
         else if ev_code ev = BTN_RIGHT then
           push_update (mouse\<lparr>mouse_rmb := ev_value ev, mouse_force_update := 1\<rparr>)
             (mouse_mmb mouse)
         else if ev_code ev = BTN_MIDDLE then
           (if opt_wheel options \<noteq> 0
            then push_update (mouse\<lparr>mouse_mmb := ev_value ev, mouse_force_update := 1\<rparr>) 1
            else mouse)
         else mouse)
      else if ev_type ev = EV_REL then
        (let mouse1 =
           (if ev_code ev = REL_X then
              mouse\<lparr>mouse_x := clamp (mouse_x mouse + ev_value ev) (- 127) 127\<rparr>
            else if ev_code ev = REL_Y then
              mouse\<lparr>mouse_y := clamp (mouse_y mouse + ev_value ev) (- 127) 127\<rparr>
            else if ev_code ev = REL_WHEEL then
              (if opt_wheel options \<noteq> 0
               then push_update
                      (mouse\<lparr>mouse_wheel := clamp (mouse_wheel mouse + ev_value ev) (- 15) 15\<rparr>) 1
               else mouse)
            else mouse)
         in push_update mouse1 (mouse_mmb mouse1))
      else mouse)"

text \<open>The condition of the \<^verbatim>\<open>if\<close> that guards the sending of a packet.\<close>

definition flush_due :: "timespec \<Rightarrow> mouse_state_t \<Rightarrow> bool" where
  "flush_due time_diff mouse \<longleftrightarrow>
     (tv_sec time_diff <s 0 \<and> - 1 <s mouse_update mouse) \<or> mouse_force_update mouse \<noteq> 0"

text \<open>
  The encoder: the statements that fill \<^verbatim>\<open>mouse.state\<close> before it is sent, in the order of
  the source. \<^verbatim>\<open>movement\<close> is not negative (it is masked with \<^verbatim>\<open>0xc0\<close>), so its right shift
  is \<open>drop_bit\<close>. An assignment to a \<^verbatim>\<open>uint8_t\<close> keeps the low eight bits (\<open>ucast\<close>).
\<close>

definition or_byte :: "uint8 list \<Rightarrow> nat \<Rightarrow> cint \<Rightarrow> uint8 list" where
  "or_byte st i v = st[i := ucast ((ucast (st ! i) :: cint) OR v)]"

definition encode :: "serial_h \<Rightarrow> mouse_state_t \<Rightarrow> mouse_state_t" where
  "encode h mouse =
     (let st = mouse_state mouse;
          st = or_byte st 0 (push_bit (MOUSE_LMB_BIT h) (mouse_lmb mouse));
          st = or_byte st 0 (push_bit (MOUSE_RMB_BIT h) (mouse_rmb mouse));
          st = or_byte st 3 (push_bit (MOUSE_MMB_BIT h) (mouse_mmb mouse));
          movement = mouse_x mouse AND 0xc0;
          st = or_byte st 0 (drop_bit 6 movement);
          st = or_byte st 1 (mouse_x mouse AND 0x3f);
          movement = mouse_y mouse AND 0xc0;
          st = or_byte st 0 (drop_bit 4 movement);
          st = or_byte st 2 (mouse_y mouse AND 0x3f);
          st = or_byte st 3 (- mouse_wheel mouse AND 0x0f)
      in mouse\<lparr>mouse_state := st\<rparr>)"

text \<open>
  The bytes that the \<^verbatim>\<open>for\<close> loop writes: \<^verbatim>\<open>mouse.state[i]\<close> for \<^verbatim>\<open>i = 0 .. mouse.update\<close>.
\<close>

definition packet_bytes :: "mouse_state_t \<Rightarrow> uint8 list" where
  "packet_bytes mouse = take (nat (sint (mouse_update mouse) + 1)) (mouse_state mouse)"

text \<open>
  What is reset once the packet is written. The buttons \<^verbatim>\<open>lmb\<close>, \<^verbatim>\<open>rmb\<close> and \<^verbatim>\<open>mmb\<close> are not
  assigned.
\<close>

definition reset_after_send :: "mouse_state_t \<Rightarrow> mouse_state_t" where
  "reset_after_send mouse =
     reset_packet
       (mouse\<lparr>mouse_update := - 1, mouse_force_update := 0,
              mouse_x := 0, mouse_y := 0, mouse_wheel := 0\<rparr>)"

text \<open>
  The state of the loop: the mouse state, the deadline \<^verbatim>\<open>time_target\<close> and the bytes written
  to the serial line.
\<close>

record world =
  w_mouse :: mouse_state_t
  w_time_target :: timespec
  w_line :: "uint8 list"

text \<open>
  The body of the \<^verbatim>\<open>if\<close>: encode, write, choose the next deadline, reset. \<open>clock\<close> is the
  reading of the clock in \<^verbatim>\<open>get_target_time\<close>.
\<close>

definition flush :: "serial_h \<Rightarrow> timespec \<Rightarrow> world \<Rightarrow> world" where
  "flush h clock w =
     (let mouse = encode h (w_mouse w);
          line = w_line w @ packet_bytes mouse;
          time_target =
            (if mouse_mmb mouse \<noteq> 0 then get_target_time clock (SERIALDELAY_4B h)
             else get_target_time clock (SERIALDELAY_3B h))
      in \<lparr>w_mouse = reset_after_send mouse, w_time_target = time_target, w_line = line\<rparr>)"

text \<open>
  The part of an iteration that runs when \<^verbatim>\<open>libevdev_next_event\<close> delivered an event.
  \<open>time_now\<close> is the clock read before the test. The first component of the result is the
  packet written when the guarded block ran, and \<open>None\<close> when it did not.
\<close>

definition process_event ::
  "serial_h \<Rightarrow> opts \<Rightarrow> input_event \<Rightarrow> timespec \<Rightarrow> timespec \<Rightarrow> world \<Rightarrow> uint8 list option \<times> world" where
  "process_event h options ev time_now clock w =
     (let mouse = handle_event options ev (w_mouse w);
          time_diff = timespec_diff (w_time_target w) time_now;
          w1 = w\<lparr>w_mouse := mouse\<rparr>
      in if flush_due time_diff mouse
         then (Some (packet_bytes (encode h mouse)), flush h clock w1)
         else (None, w1))"

text \<open>
  The inputs of one iteration: the register read by the \<^verbatim>\<open>get_pin\<close> of the loop, the readings
  taken by \<^verbatim>\<open>mouse_ident\<close> if it runs, the event if \<^verbatim>\<open>libevdev_next_event\<close> succeeded, and the
  two clock readings.
\<close>

record iteration_input =
  in_pin :: "cint option"
  in_readings :: "cint option list"
  in_event :: "input_event option"
  in_time_now :: timespec
  in_clock :: timespec

text \<open>
  One iteration of \<^verbatim>\<open>while(1)\<close>. It starts with \<^verbatim>\<open>mouse.update = -1\<close>. The result is \<open>None\<close>
  when \<^verbatim>\<open>mouse_ident\<close> does not return on the given readings.
\<close>

definition loop_iteration ::
  "serial_h \<Rightarrow> opts \<Rightarrow> iteration_input \<Rightarrow> world \<Rightarrow> (uint8 list option \<times> world) option" where
  "loop_iteration h options inp w =
     (let w0 = w\<lparr>w_mouse := (w_mouse w)\<lparr>mouse_update := - 1\<rparr>\<rparr>;
          identified =
            (if get_pin (in_pin inp) (TIOCM_CTS OR TIOCM_DSR) = 0 \<and> opt_immediate options = 0
             then (case mouse_ident (in_readings inp) (w_line w0) (opt_wheel options)
                          (opt_immediate options) of
                     None \<Rightarrow> None
                   | Some (readings, line) \<Rightarrow> Some (w0\<lparr>w_line := line\<rparr>))
             else Some w0)
      in case identified of
           None \<Rightarrow> None
         | Some w1 \<Rightarrow>
             (case in_event inp of
                None \<Rightarrow> Some (None, w1)
              | Some ev \<Rightarrow>
                  Some (process_event h options ev (in_time_now inp) (in_clock inp) w1)))"

text \<open>
  The serial line as the identification at the head of an iteration leaves it: the line
  itself when the test on CTS, DSR and \<^verbatim>\<open>immediate\<close> fails, what \<^verbatim>\<open>mouse_ident\<close> has written
  to it otherwise, and \<open>None\<close> while \<^verbatim>\<open>mouse_ident\<close> is waiting.
\<close>

definition line_after_ident :: "opts \<Rightarrow> iteration_input \<Rightarrow> uint8 list \<Rightarrow> uint8 list option" where
  "line_after_ident options inp line =
     (if get_pin (in_pin inp) (TIOCM_CTS OR TIOCM_DSR) = 0 \<and> opt_immediate options = 0
      then map_option snd
             (mouse_ident (in_readings inp) line (opt_wheel options) (opt_immediate options))
      else Some line)"

text \<open>
  A run of the loop over a list of inputs, one per iteration, collecting the packets written
  (\<open>None\<close> for an iteration that wrote none).
\<close>

fun run_loop ::
  "serial_h \<Rightarrow> opts \<Rightarrow> iteration_input list \<Rightarrow> world \<Rightarrow> (uint8 list option list \<times> world) option" where
  "run_loop h options [] w = Some ([], w)"
| "run_loop h options (inp # inps) w =
     (case loop_iteration h options inp w of
        None \<Rightarrow> None
      | Some (sent, w1) \<Rightarrow>
          (case run_loop h options inps w1 of
             None \<Rightarrow> None
           | Some (sents, w2) \<Rightarrow> Some (sent # sents, w2)))"

section \<open>Concrete inputs\<close>

text \<open>
  Values at which the theorems below are instantiated. The header values are one choice
  with the button bits above the movement bits; the options are those of
  \<^verbatim>\<open>amouse -m /dev/input/event0 -s /dev/ttyS0\<close>.
\<close>

definition example_serial_h :: serial_h where
  "example_serial_h =
     \<lparr>MOUSE_LMB_BIT = 5, MOUSE_RMB_BIT = 4, MOUSE_MMB_BIT = 4,
      SERIALDELAY_3B = 22000000, SERIALDELAY_4B = 30000000\<rparr>"

definition example_opts :: opts where
  "example_opts =
     \<lparr>opt_mousepath = Some ''/dev/input/event0'', opt_serialpath = Some ''/dev/ttyS0'',
      opt_wheel = 1, opt_exclusive = 1, opt_immediate = 0, opt_debug = 0\<rparr>"

text \<open>A mouse state with the packet at its template and nothing accumulated.\<close>

definition idle_mouse :: mouse_state_t where
  "idle_mouse =
     \<lparr>mouse_pc_state = 0, mouse_state = [0x40, 0x00, 0x00, 0x00],
      mouse_x = 0, mouse_y = 0, mouse_wheel = 0, mouse_update = - 1,
      mouse_lmb = 0, mouse_rmb = 0, mouse_mmb = 0, mouse_force_update = 0\<rparr>"

text \<open>The same with 5 accumulated in X, \<open>-3\<close> in Y and the left button down.\<close>

definition moved_mouse :: mouse_state_t where
  "moved_mouse = idle_mouse\<lparr>mouse_x := 5, mouse_y := - 3, mouse_lmb := 1\<rparr>"

text \<open>The loop with the deadline at 10 s and nothing written yet.\<close>

definition idle_world :: world where
  "idle_world =
     \<lparr>w_mouse = idle_mouse, w_time_target = \<lparr>tv_sec = 10, tv_nsec = 0\<rparr>, w_line = []\<rparr>"

text \<open>
  Three iterations with CTS and DSR high (no identification): a wheel tick and a step in X
  before the deadline, and a step in X after it.
\<close>

definition wheel_tick_early :: iteration_input where
  "wheel_tick_early =
     \<lparr>in_pin = Some 0x120, in_readings = [],
      in_event = Some \<lparr>ev_type = EV_REL, ev_code = REL_WHEEL, ev_value = 1\<rparr>,
      in_time_now = \<lparr>tv_sec = 9, tv_nsec = 990000000\<rparr>,
      in_clock = \<lparr>tv_sec = 9, tv_nsec = 990000000\<rparr>\<rparr>"

definition x_step_early :: iteration_input where
  "x_step_early =
     \<lparr>in_pin = Some 0x120, in_readings = [],
      in_event = Some \<lparr>ev_type = EV_REL, ev_code = REL_X, ev_value = 1\<rparr>,
      in_time_now = \<lparr>tv_sec = 9, tv_nsec = 995000000\<rparr>,
      in_clock = \<lparr>tv_sec = 9, tv_nsec = 995000000\<rparr>\<rparr>"

definition x_step_late :: iteration_input where
  "x_step_late =
     \<lparr>in_pin = Some 0x120, in_readings = [],
      in_event = Some \<lparr>ev_type = EV_REL, ev_code = REL_X, ev_value = 1\<rparr>,
      in_time_now = \<lparr>tv_sec = 10, tv_nsec = 5000000\<rparr>,
      in_clock = \<lparr>tv_sec = 10, tv_nsec = 5000000\<rparr>\<rparr>"

text \<open>An iteration in which the left button goes down before the deadline.\<close>

definition lmb_down_early :: iteration_input where
  "lmb_down_early =
     \<lparr>in_pin = Some 0x120, in_readings = [],
      in_event = Some \<lparr>ev_type = EV_KEY, ev_code = BTN_LEFT, ev_value = 1\<rparr>,
      in_time_now = \<lparr>tv_sec = 9, tv_nsec = 990000000\<rparr>,
      in_clock = \<lparr>tv_sec = 9, tv_nsec = 990000000\<rparr>\<rparr>"

text \<open>What a run is observed by: the packets, and the pending length and wheel count left.\<close>

definition observe ::
  "(uint8 list option list \<times> world) option \<Rightarrow> (uint8 list option list \<times> cint \<times> cint) option" where
  "observe r =
     map_option (\<lambda>(sents, w). (sents, mouse_update (w_mouse w), mouse_wheel (w_mouse w))) r"

section \<open>Properties of the flush\<close>

lemma reset_after_send_fields:
  "mouse_x (reset_after_send m) = 0"
  "mouse_y (reset_after_send m) = 0"
  "mouse_wheel (reset_after_send m) = 0"
  "mouse_update (reset_after_send m) = - 1"
  "mouse_force_update (reset_after_send m) = 0"
  "mouse_state (reset_after_send m) = [0x40, 0x00, 0x00, 0x00]"
  "mouse_lmb (reset_after_send m) = mouse_lmb m"
  "mouse_rmb (reset_after_send m) = mouse_rmb m"
  "mouse_mmb (reset_after_send m) = mouse_mmb m"
  by (simp_all add: reset_after_send_def reset_packet_def init_mouse_state_def)

lemma encode_buttons:
  "mouse_lmb (encode h m) = mouse_lmb m"
  "mouse_rmb (encode h m) = mouse_rmb m"
  "mouse_mmb (encode h m) = mouse_mmb m"
  by (simp_all add: encode_def Let_def)

text \<open>
  C5. After a flush, whatever the state before it, the accumulators \<open>x\<close>, \<open>y\<close> and \<open>wheel\<close>
  are zero, the pending length is \<open>-1\<close>, \<open>force_update\<close> is 0, the packet is the template
  \<open>0x40, 0x00, 0x00, 0x00\<close>, and the three button latches have the values they had before.
\<close>

theorem flush_resets:
  "mouse_x (w_mouse (flush h clock w)) = 0 \<and>
   mouse_y (w_mouse (flush h clock w)) = 0 \<and>
   mouse_wheel (w_mouse (flush h clock w)) = 0 \<and>
   mouse_update (w_mouse (flush h clock w)) = - 1 \<and>
   mouse_force_update (w_mouse (flush h clock w)) = 0 \<and>
   mouse_state (w_mouse (flush h clock w)) = [0x40, 0x00, 0x00, 0x00] \<and>
   mouse_lmb (w_mouse (flush h clock w)) = mouse_lmb (w_mouse w) \<and>
   mouse_rmb (w_mouse (flush h clock w)) = mouse_rmb (w_mouse w) \<and>
   mouse_mmb (w_mouse (flush h clock w)) = mouse_mmb (w_mouse w)"
  by (simp add: flush_def Let_def reset_after_send_fields encode_buttons)

lemma loop_iteration_event_world:
  assumes "in_event inp = Some ev"
    and "loop_iteration h options inp w = Some (sent, w')"
  shows "\<exists>w1. process_event h options ev (in_time_now inp) (in_clock inp) w1 = (sent, w') \<and>
           w_mouse w1 = (w_mouse w)\<lparr>mouse_update := - 1\<rparr> \<and>
           w_time_target w1 = w_time_target w \<and>
           line_after_ident options inp (w_line w) = Some (w_line w1)"
proof (cases "get_pin (in_pin inp) (TIOCM_CTS OR TIOCM_DSR) = 0 \<and> opt_immediate options = 0")
  case False
  with assms show ?thesis
    by (intro exI [of _ "w\<lparr>w_mouse := (w_mouse w)\<lparr>mouse_update := - 1\<rparr>\<rparr>"])
      (auto simp: loop_iteration_def line_after_ident_def Let_def)
next
  case True
  with assms show ?thesis
    by (fastforce simp: loop_iteration_def line_after_ident_def Let_def split: option.splits)
qed

lemma process_event_effect:
  "process_event h options ev time_now clock w =
     (let m = handle_event options ev (w_mouse w)
      in if (tv_sec (timespec_diff (w_time_target w) time_now) <s 0 \<and> - 1 <s mouse_update m)
            \<or> mouse_force_update m \<noteq> 0
         then (Some (packet_bytes (encode h m)),
               \<lparr>w_mouse = reset_after_send (encode h m),
                w_time_target =
                  (if mouse_mmb m \<noteq> 0 then get_target_time clock (SERIALDELAY_4B h)
                   else get_target_time clock (SERIALDELAY_3B h)),
                w_line = w_line w @ packet_bytes (encode h m)\<rparr>)
         else (None, w\<lparr>w_mouse := m\<rparr>))"
  by (simp add: process_event_def flush_def flush_due_def Let_def encode_buttons)

text \<open>
  C4. In an iteration of the main loop that processes an input event, a flush occurs exactly
  when the deadline has passed (\<open>time_diff.tv_sec < 0\<close>) with a pending length above \<open>-1\<close>,
  or \<open>force_update\<close> is set, whatever the deadline. The state tested is the one the event has
  been dispatched to. When the condition holds, the bytes \<open>0 .. update\<close> of the encoded
  packet are appended to the serial line, the mouse state is the encoded one after the reset,
  and the deadline is recomputed; when it does not hold, nothing is written, the mouse state is
  the dispatched one and the deadline stays.
\<close>

theorem loop_iteration_flush_iff:
  assumes "in_event inp = Some ev"
    and "loop_iteration h options inp w = Some (sent, w')"
  shows "let m = handle_event options ev ((w_mouse w)\<lparr>mouse_update := - 1\<rparr>);
             due = ((tv_sec (timespec_diff (w_time_target w) (in_time_now inp)) <s 0 \<and>
                     - 1 <s mouse_update m)
                    \<or> mouse_force_update m \<noteq> 0)
         in (sent \<noteq> None \<longleftrightarrow> due) \<and>
            (case line_after_ident options inp (w_line w) of
               None \<Rightarrow> False
             | Some line1 \<Rightarrow>
                 if due
                 then sent = Some (packet_bytes (encode h m)) \<and>
                      w_line w' = line1 @ packet_bytes (encode h m) \<and>
                      w_mouse w' = reset_after_send (encode h m) \<and>
                      w_time_target w' =
                        (if mouse_mmb m \<noteq> 0
                         then get_target_time (in_clock inp) (SERIALDELAY_4B h)
                         else get_target_time (in_clock inp) (SERIALDELAY_3B h))
                 else sent = None \<and> w_line w' = line1 \<and> w_mouse w' = m \<and>
                      w_time_target w' = w_time_target w)"
proof -
  from loop_iteration_event_world [OF assms] obtain w1 where
    run: "process_event h options ev (in_time_now inp) (in_clock inp) w1 = (sent, w')"
    and m: "w_mouse w1 = (w_mouse w)\<lparr>mouse_update := - 1\<rparr>"
    and t: "w_time_target w1 = w_time_target w"
    and l: "line_after_ident options inp (w_line w) = Some (w_line w1)"
    by blast
  from run [unfolded process_event_effect] show ?thesis
    by (auto simp: l m t Let_def split: if_splits)
qed

theorem loop_iteration_flush_iff_witness:
  "in_event lmb_down_early = Some \<lparr>ev_type = EV_KEY, ev_code = BTN_LEFT, ev_value = 1\<rparr> \<and>
   map_option (\<lambda>(sent, w'). (sent, w_line w', w_mouse w'))
       (loop_iteration example_serial_h example_opts lmb_down_early idle_world)
     = Some (Some [0x60, 0x00, 0x00], [0x60, 0x00, 0x00], idle_mouse\<lparr>mouse_lmb := 1\<rparr>) \<and>
   line_after_ident example_opts lmb_down_early (w_line idle_world) = Some [] \<and>
   \<not> tv_sec (timespec_diff (w_time_target idle_world) (in_time_now lmb_down_early)) <s 0 \<and>
   mouse_force_update
     (handle_event example_opts \<lparr>ev_type = EV_KEY, ev_code = BTN_LEFT, ev_value = 1\<rparr>
        ((w_mouse idle_world)\<lparr>mouse_update := - 1\<rparr>)) = 1 \<and>
   packet_bytes (encode example_serial_h
     (handle_event example_opts \<lparr>ev_type = EV_KEY, ev_code = BTN_LEFT, ev_value = 1\<rparr>
        ((w_mouse idle_world)\<lparr>mouse_update := - 1\<rparr>))) = [0x60, 0x00, 0x00]"
proof -
  have e: "in_event lmb_down_early = Some \<lparr>ev_type = EV_KEY, ev_code = BTN_LEFT, ev_value = 1\<rparr>"
    by (simp add: lmb_down_early_def)
  have s: "map_option (\<lambda>(sent, w'). (sent, w_line w', w_mouse w'))
       (loop_iteration example_serial_h example_opts lmb_down_early idle_world)
     = Some (Some [0x60, 0x00, 0x00], [0x60, 0x00, 0x00], idle_mouse\<lparr>mouse_lmb := 1\<rparr>)"
    by code_simp
  then obtain w' where
    r: "loop_iteration example_serial_h example_opts lmb_down_early idle_world
          = Some (Some [0x60, 0x00, 0x00], w')"
    by auto
  have i: "line_after_ident example_opts lmb_down_early (w_line idle_world) = Some []"
    by code_simp
  have t: "\<not> tv_sec (timespec_diff (w_time_target idle_world) (in_time_now lmb_down_early)) <s 0"
    by code_simp
  have f: "mouse_force_update
     (handle_event example_opts \<lparr>ev_type = EV_KEY, ev_code = BTN_LEFT, ev_value = 1\<rparr>
        ((w_mouse idle_world)\<lparr>mouse_update := - 1\<rparr>)) = 1"
    by code_simp
  have p: "packet_bytes (encode example_serial_h
     (handle_event example_opts \<lparr>ev_type = EV_KEY, ev_code = BTN_LEFT, ev_value = 1\<rparr>
        ((w_mouse idle_world)\<lparr>mouse_update := - 1\<rparr>))) = [0x60, 0x00, 0x00]"
    using loop_iteration_flush_iff [OF e r] i f by (simp add: Let_def)
  from e s i t f p show ?thesis
    by simp
qed

section \<open>The pending length across iterations\<close>

text \<open>\<^verbatim>\<open>push_update\<close> by itself never lowers a pending length of 3.\<close>

lemma push_update_keeps_full:
  "mouse_update mouse = 3 \<Longrightarrow> mouse_update (push_update mouse full_packet) = 3"
  by (simp add: push_update_def)

lemma push_update_values:
  "mouse_update (push_update mouse full_packet) = 2 \<or>
   mouse_update (push_update mouse full_packet) = 3"
  by (simp add: push_update_def)

text \<open>
  C1. The claim is that the pending length is never lowered between two flushes. Every
  iteration of the loop starts with \<^verbatim>\<open>mouse.update = -1\<close>, so the length that an unflushed
  event left is lost. On the run below no packet is written in the first two iterations: the
  wheel tick leaves the length at 3 (four bytes), the step in X that follows leaves it at 2
  (three bytes), with the wheel count still 1. The packet that the third iteration writes has
  three bytes, and the wheel count is cleared without having been sent.
\<close>

theorem pending_length_lowered_without_flush:
  "observe (run_loop example_serial_h example_opts [wheel_tick_early] idle_world)
     = Some ([None], 3, 1) \<and>
   observe (run_loop example_serial_h example_opts [wheel_tick_early, x_step_early] idle_world)
     = Some ([None, None], 2, 1) \<and>
   observe (run_loop example_serial_h example_opts
              [wheel_tick_early, x_step_early, x_step_late] idle_world)
     = Some ([None, None, Some [0x40, 0x02, 0x00]], - 1, 0)"
  by code_simp

section \<open>Identification\<close>

text \<open>
  C6. The claim is that exactly the two bytes \<open>0x4D 0x5A\<close> are sent when the wheel is
  enabled. The length passed to \<^verbatim>\<open>serial_write\<close> is \<^verbatim>\<open>sizeof(pkt_intellimouse_intro)\<close>, which
  counts the NUL of the string literal: three bytes are written, \<open>0x4D 0x5A 0x00\<close>. With the
  wheel disabled the single byte \<open>0x4D\<close> is written.
\<close>

theorem mouse_ident_wheel_writes_three_bytes:
  "mouse_ident [] [] 1 1 = Some ([], [0x4D, 0x5A, 0x00]) \<and>
   mouse_ident [] [] 0 1 = Some ([], [0x4D])"
  by code_simp

section \<open>Command line\<close>

text \<open>
  C8. The claim is that a missing path ends the program with a failure status. For
  \<^verbatim>\<open>amouse -s /dev/ttyS0\<close> the program writes the message about \<^verbatim>\<open>-m\<close> to the error stream and
  calls \<^verbatim>\<open>exit(0)\<close>: the status is 0, the status of success.
\<close>

theorem missing_mousepath_exits_with_status_0:
  "main_options 3 [(CHR ''s'', ''/dev/ttyS0'')] =
     ([Stderr ''You must define a path with -m to your mouse /dev/input/* file.''], Inl 0)"
  by (simp add: main_options_def parse_opts_def calloc_opts_def)

lemma parse_opts_loop_last:
  "getopts \<noteq> [] \<Longrightarrow> parse_opts_loop getopts options out = (out', Inr options') \<Longrightarrow>
     (opt_wheel options' = 0 \<longleftrightarrow> fst (last getopts) = CHR ''w'') \<and>
     (opt_wheel options' = 1 \<longleftrightarrow> fst (last getopts) \<noteq> CHR ''w'') \<and>
     (opt_exclusive options' = 0 \<longleftrightarrow> fst (last getopts) = CHR ''e'') \<and>
     (opt_exclusive options' = 1 \<longleftrightarrow> fst (last getopts) \<noteq> CHR ''e'')"
proof (induction getopts arbitrary: options out)
  case Nil
  then show ?case by simp
next
  case (Cons g rest)
  obtain c a where g: "g = (c, a)" by (cases g)
  show ?case
  proof (cases "rest = []")
    case True
    with Cons.prems g show ?thesis
      by (auto simp: Let_def split: if_splits)
  next
    case False
    with Cons.prems g Cons.IH show ?thesis
      by (auto simp: Let_def split: if_splits)
  qed
qed

lemma parse_opts_Inr:
  assumes "parse_opts getopts options0 = (out, Inr options)"
  shows "\<exists>out1. parse_opts_loop getopts options0 [] = (out1, Inr options) \<and>
           opt_mousepath options \<noteq> None \<and> opt_serialpath options \<noteq> None"
proof (cases "parse_opts_loop getopts options0 []")
  case (Pair out1 r)
  show ?thesis
  proof (cases r)
    case (Inl status)
    with Pair assms show ?thesis by (simp add: parse_opts_def)
  next
    case (Inr options1)
    with Pair assms show ?thesis
      by (auto simp: parse_opts_def Let_def split: if_splits)
  qed
qed

text \<open>
  C10. \<^verbatim>\<open>parse_opts\<close> assigns \<^verbatim>\<open>wheel = 1\<close> and \<^verbatim>\<open>exclusive = 1\<close> at the start of every
  iteration over the options, so an earlier \<^verbatim>\<open>-w\<close> or \<^verbatim>\<open>-e\<close> is overwritten by any option
  that follows. Whenever \<^verbatim>\<open>main\<close> gets the options back from \<^verbatim>\<open>parse_opts\<close>, \<open>wheel\<close> is 0 if
  and only if the last result of \<^verbatim>\<open>getopt\<close> was \<^verbatim>\<open>w\<close> and is 1 otherwise, and \<open>exclusive\<close> is 0
  if and only if the last result was \<^verbatim>\<open>e\<close> and is 1 otherwise.
\<close>

theorem flags_follow_last_option:
  assumes "main_options argc getopts = (out, Inr options)"
  shows "(opt_wheel options = 0 \<longleftrightarrow> fst (last getopts) = CHR ''w'') \<and>
         (opt_wheel options = 1 \<longleftrightarrow> fst (last getopts) \<noteq> CHR ''w'') \<and>
         (opt_exclusive options = 0 \<longleftrightarrow> fst (last getopts) = CHR ''e'') \<and>
         (opt_exclusive options = 1 \<longleftrightarrow> fst (last getopts) \<noteq> CHR ''e'')"
proof -
  from assms have p: "parse_opts getopts calloc_opts = (out, Inr options)"
    by (simp add: main_options_def split: if_splits)
  then obtain out1 where l: "parse_opts_loop getopts calloc_opts [] = (out1, Inr options)"
    and m: "opt_mousepath options \<noteq> None"
    using parse_opts_Inr by blast
  have "getopts \<noteq> []"
  proof
    assume "getopts = []"
    with l have "options = calloc_opts" by simp
    with m show False by (simp add: calloc_opts_def)
  qed
  then show ?thesis using l by (rule parse_opts_loop_last)
qed

theorem flags_follow_last_option_witness:
  "main_options 6
     [(CHR ''w'', []), (CHR ''m'', ''/dev/input/event0''), (CHR ''s'', ''/dev/ttyS0'')]
     = ([], Inr example_opts) \<and>
   opt_wheel example_opts = 1 \<and>
   fst (last [(CHR ''w'', []), (CHR ''m'', ''/dev/input/event0''), (CHR ''s'', ''/dev/ttyS0'')])
     \<noteq> CHR ''w''"
proof -
  have run: "main_options 6
     [(CHR ''w'', []), (CHR ''m'', ''/dev/input/event0''), (CHR ''s'', ''/dev/ttyS0'')]
     = ([], Inr example_opts)"
    by (simp add: main_options_def parse_opts_def calloc_opts_def example_opts_def)
  from flags_follow_last_option [OF run] run show ?thesis by simp
qed

section \<open>Control lines\<close>

lemma and_nonzero_iff:
  fixes reg flag :: cint
  shows "reg AND flag \<noteq> 0 \<longleftrightarrow> (\<exists>n. bit reg n \<and> bit flag n)"
proof
  assume "reg AND flag \<noteq> 0"
  then obtain n where "bit (reg AND flag) n"
    by (auto simp: bit_eq_iff)
  then show "\<exists>n. bit reg n \<and> bit flag n"
    by (auto simp: bit_and_iff)
next
  assume "\<exists>n. bit reg n \<and> bit flag n"
  then obtain n where "bit (reg AND flag) n"
    by (auto simp: bit_and_iff)
  then show "reg AND flag \<noteq> 0"
    by (cases "reg AND flag = 0") simp_all
qed

text \<open>
  C7, the claim as stated fails: with only CTS set in the register and the mask CTS and DSR,
  \<^verbatim>\<open>get_pin\<close> returns 1 although not all bits of the mask are set.
\<close>

theorem get_pin_not_all_bits:
  "get_pin (Some TIOCM_CTS) (TIOCM_CTS OR TIOCM_DSR) = 1 \<and>
   TIOCM_CTS AND (TIOCM_CTS OR TIOCM_DSR) \<noteq> TIOCM_CTS OR TIOCM_DSR"
  by (simp add: get_pin_def TIOCM_CTS_def TIOCM_DSR_def)

text \<open>
  C7, amended: for every register value and every mask, \<^verbatim>\<open>get_pin\<close> returns 1 exactly when at
  least one bit of the mask is set in the register, 0 exactly when none is (all the lines of
  the mask are low), and \<open>-1\<close> when the query fails.
\<close>

theorem get_pin_any_bit:
  "(get_pin (Some reg) flag = 1 \<longleftrightarrow> (\<exists>n. bit reg n \<and> bit flag n)) \<and>
   (get_pin (Some reg) flag = 0 \<longleftrightarrow> \<not> (\<exists>n. bit reg n \<and> bit flag n)) \<and>
   get_pin None flag = - 1"
  using and_nonzero_iff [of reg flag] by (simp add: get_pin_def)

theorem get_pin_any_bit_witness:
  "get_pin (Some 0x020) 0x120 = 1 \<and> get_pin (Some 0x004) 0x120 = 0 \<and>
   get_pin None 0x120 = - 1"
  using get_pin_any_bit [of "0x020" "0x120"] get_pin_any_bit [of "0x004" "0x120"]
  by (simp add: get_pin_def)

section \<open>Time differences\<close>

lemma sint_diff_in_range:
  fixes a b :: clong
  assumes "- (2 ^ 63) \<le> sint a - sint b" "sint a - sint b < 2 ^ 63"
  shows "sint (a - b) = sint a - sint b"
  using assms by (simp add: sint_word_diff signed_take_bit_int_eq_self)

lemma sint_add_in_range:
  fixes a b :: clong
  assumes "- (2 ^ 63) \<le> sint a + sint b" "sint a + sint b < 2 ^ 63"
  shows "sint (a + b) = sint a + sint b"
  using assms by (simp add: sint_word_add signed_take_bit_int_eq_self)

lemma sint_NS_FULL_SECOND: "sint NS_FULL_SECOND = 1000000000"
  by (simp add: NS_FULL_SECOND_def)

text \<open>
  C9. For two timestamps of the monotonic clock (seconds not negative) whose nanosecond fields
  lie in \<open>[0, 10^9)\<close>, the nanosecond field of \<^verbatim>\<open>timespec_diff\<close> lies in \<open>[0, 10^9)\<close> again, and
  seconds times \<open>10^9\<close> plus nanoseconds of the result is the exact signed difference of the two
  instants in nanoseconds.
\<close>

theorem timespec_diff_exact:
  assumes sec1: "0 \<le>s tv_sec ts1" and sec2: "0 \<le>s tv_sec ts2"
    and n1: "0 \<le>s tv_nsec ts1" "tv_nsec ts1 <s NS_FULL_SECOND"
    and n2: "0 \<le>s tv_nsec ts2" "tv_nsec ts2 <s NS_FULL_SECOND"
  shows "0 \<le> sint (tv_nsec (timespec_diff ts1 ts2)) \<and>
         sint (tv_nsec (timespec_diff ts1 ts2)) < 1000000000 \<and>
         sint (tv_sec (timespec_diff ts1 ts2)) * 1000000000
           + sint (tv_nsec (timespec_diff ts1 ts2))
           = (sint (tv_sec ts1) * 1000000000 + sint (tv_nsec ts1))
             - (sint (tv_sec ts2) * 1000000000 + sint (tv_nsec ts2))"
proof -
  have s1: "0 \<le> sint (tv_sec ts1)" and s2: "0 \<le> sint (tv_sec ts2)"
    using sec1 sec2 by (simp_all add: word_sle_eq)
  have b1: "sint (tv_sec ts1) < 2 ^ 63" and b2: "sint (tv_sec ts2) < 2 ^ 63"
    using sint_lt [of "tv_sec ts1"] sint_lt [of "tv_sec ts2"] by simp_all
  have r1: "0 \<le> sint (tv_nsec ts1)" "sint (tv_nsec ts1) < 1000000000"
    using n1 by (simp_all add: word_sle_eq word_sless_alt sint_NS_FULL_SECOND)
  have r2: "0 \<le> sint (tv_nsec ts2)" "sint (tv_nsec ts2) < 1000000000"
    using n2 by (simp_all add: word_sle_eq word_sless_alt sint_NS_FULL_SECOND)
  have dsec: "sint (tv_sec ts1 - tv_sec ts2) = sint (tv_sec ts1) - sint (tv_sec ts2)"
    using s1 s2 b1 b2 by (intro sint_diff_in_range) simp_all
  have dnsec: "sint (tv_nsec ts1 - tv_nsec ts2) = sint (tv_nsec ts1) - sint (tv_nsec ts2)"
    using r1 r2 by (intro sint_diff_in_range) simp_all
  show ?thesis
  proof (cases "tv_nsec ts1 - tv_nsec ts2 <s 0")
    case True
    then have neg: "sint (tv_nsec ts1) - sint (tv_nsec ts2) < 0"
      using dnsec by (simp add: word_sless_alt)
    have dsec1: "sint (tv_sec ts1 - tv_sec ts2 - 1) = sint (tv_sec ts1) - sint (tv_sec ts2) - 1"
      using s1 s2 b1 b2 dsec sint_diff_in_range [of "tv_sec ts1 - tv_sec ts2" 1]
      by simp
    have dnsec1: "sint (tv_nsec ts1 - tv_nsec ts2 + NS_FULL_SECOND)
                    = sint (tv_nsec ts1) - sint (tv_nsec ts2) + 1000000000"
      using r1 r2 dnsec sint_add_in_range [of "tv_nsec ts1 - tv_nsec ts2" NS_FULL_SECOND]
      by (simp add: sint_NS_FULL_SECOND)
    from True neg r1 r2 show ?thesis
      by (simp add: timespec_diff_def Let_def dsec1 dnsec1)
  next
    case False
    then have nonneg: "0 \<le> sint (tv_nsec ts1) - sint (tv_nsec ts2)"
      using dnsec by (simp add: word_sless_alt)
    from False nonneg r1 r2 show ?thesis
      by (simp add: timespec_diff_def Let_def dsec dnsec)
  qed
qed

theorem timespec_diff_exact_witness:
  "0 \<le>s (5 :: clong) \<and> 0 \<le>s (3 :: clong) \<and>
   0 \<le>s (100 :: clong) \<and> (100 :: clong) <s NS_FULL_SECOND \<and>
   0 \<le>s (200 :: clong) \<and> (200 :: clong) <s NS_FULL_SECOND \<and>
   timespec_diff \<lparr>tv_sec = 5, tv_nsec = 100\<rparr> \<lparr>tv_sec = 3, tv_nsec = 200\<rparr>
     = \<lparr>tv_sec = 1, tv_nsec = 999999900\<rparr> \<and>
   sint (tv_sec (timespec_diff \<lparr>tv_sec = 5, tv_nsec = 100\<rparr> \<lparr>tv_sec = 3, tv_nsec = 200\<rparr>))
       * 1000000000
     + sint (tv_nsec (timespec_diff \<lparr>tv_sec = 5, tv_nsec = 100\<rparr> \<lparr>tv_sec = 3, tv_nsec = 200\<rparr>))
     = 1999999900"
proof -
  have h: "0 \<le>s (5 :: clong)" "0 \<le>s (3 :: clong)"
    "0 \<le>s (100 :: clong)" "(100 :: clong) <s NS_FULL_SECOND"
    "0 \<le>s (200 :: clong)" "(200 :: clong) <s NS_FULL_SECOND"
    by (simp_all add: word_sle_eq word_sless_alt NS_FULL_SECOND_def)
  have d: "timespec_diff \<lparr>tv_sec = 5, tv_nsec = 100\<rparr> \<lparr>tv_sec = 3, tv_nsec = 200\<rparr>
     = \<lparr>tv_sec = 1, tv_nsec = 999999900\<rparr>"
    by (simp add: timespec_diff_def NS_FULL_SECOND_def word_sless_alt)
  have "sint (tv_sec (timespec_diff \<lparr>tv_sec = 5, tv_nsec = 100\<rparr> \<lparr>tv_sec = 3, tv_nsec = 200\<rparr>))
       * 1000000000
     + sint (tv_nsec (timespec_diff \<lparr>tv_sec = 5, tv_nsec = 100\<rparr> \<lparr>tv_sec = 3, tv_nsec = 200\<rparr>))
     = 1999999900"
    using timespec_diff_exact [of "\<lparr>tv_sec = 5, tv_nsec = 100\<rparr>" "\<lparr>tv_sec = 3, tv_nsec = 200\<rparr>"] h
    by simp
  with h d show ?thesis by simp
qed

section \<open>The encoder\<close>

subsection \<open>The packet built from the template\<close>

lemma ucast_or_byte:
  fixes b :: uint8 and v :: cint
  shows "(ucast ((ucast b :: cint) OR v) :: uint8) = b OR ucast v"
  by (rule bit_word_eqI) (auto simp: bit_simps)

lemma or_byte_eq: "or_byte st i v = st[i := st ! i OR ucast v]"
  by (simp add: or_byte_def ucast_or_byte)

lemma encode_template:
  assumes "mouse_state mouse = [0x40, 0x00, 0x00, 0x00]"
  shows "mouse_state (encode h mouse) =
     [0x40 OR ucast (push_bit (MOUSE_LMB_BIT h) (mouse_lmb mouse))
           OR ucast (push_bit (MOUSE_RMB_BIT h) (mouse_rmb mouse))
           OR ucast (drop_bit 6 (mouse_x mouse AND 0xc0))
           OR ucast (drop_bit 4 (mouse_y mouse AND 0xc0)),
      ucast (mouse_x mouse AND 0x3f),
      ucast (mouse_y mouse AND 0x3f),
      ucast (push_bit (MOUSE_MMB_BIT h) (mouse_mmb mouse))
        OR ucast (- mouse_wheel mouse AND 0x0f)]"
  using assms by (simp add: encode_def Let_def or_byte_eq or.assoc)

subsection \<open>The constants as masks\<close>

lemma cint_3f_mask: "(0x3f :: cint) = mask 6"
  by (simp add: mask_eq_exp_minus_1)

lemma cint_0f_mask: "(0x0f :: cint) = mask 4"
  by (simp add: mask_eq_exp_minus_1)

lemma cint_c0_mask: "(0xc0 :: cint) = push_bit 6 (mask 2)"
  by (simp add: mask_eq_exp_minus_1)

lemma byte_03_mask: "(0x03 :: uint8) = mask 2"
  by (simp add: mask_eq_exp_minus_1)

lemma byte_0c_mask: "(0x0c :: uint8) = push_bit 2 (mask 2)"
  by (simp add: mask_eq_exp_minus_1)

lemma byte_0f_mask: "(0x0f :: uint8) = mask 4"
  by (simp add: mask_eq_exp_minus_1)

lemma bit_64_int: "bit (64 :: int) n \<longleftrightarrow> n = 6"
proof -
  have "bit (2 ^ 6 :: int) n \<longleftrightarrow> n = 6"
    by (simp only: bit_exp_iff) (auto simp: possible_bit_def)
  then show ?thesis by simp
qed

lemma bit_16_int: "bit (16 :: int) n \<longleftrightarrow> n = 4"
proof -
  have "bit (2 ^ 4 :: int) n \<longleftrightarrow> n = 4"
    by (simp only: bit_exp_iff) (auto simp: possible_bit_def)
  then show ?thesis by simp
qed

subsection \<open>The bytes as numbers\<close>

lemma low6_uint:
  fixes v :: cint
  shows "uint (ucast (v AND 0x3f) :: uint8) = sint v mod 64"
proof -
  have "uint (ucast (v AND mask 6) :: uint8) = take_bit 6 (uint v)"
    by (simp add: unsigned_ucast_eq unsigned_take_bit_eq take_bit_eq_mask [symmetric] min_def)
  also have "\<dots> = take_bit 6 (sint v)"
    by (simp add: sint_uint take_bit_signed_take_bit)
  finally show ?thesis
    by (simp add: cint_3f_mask take_bit_eq_mod)
qed

lemma wheel_nibble_uint:
  fixes v :: cint
  shows "uint (ucast (- v AND 0x0f) :: uint8) = (- sint v) mod 16"
proof -
  have "uint (ucast (- v AND mask 4) :: uint8) = take_bit 4 (uint (- v))"
    by (simp add: unsigned_ucast_eq unsigned_take_bit_eq take_bit_eq_mask [symmetric] min_def)
  also have "\<dots> = take_bit 4 (sint (- v))"
    by (simp add: sint_uint take_bit_signed_take_bit)
  also have "\<dots> = take_bit 4 (- sint v)"
    by (simp add: sint_word_minus take_bit_signed_take_bit)
  finally show ?thesis
    by (simp add: cint_0f_mask take_bit_eq_mod)
qed

lemma top2_uint:
  fixes v :: cint
  shows "uint (ucast (take_bit 2 (drop_bit 6 v)) :: uint8) = (sint v mod 256) div 64"
proof -
  have full: "take_bit 32 (uint v) = uint v"
    using uint_lt2p [of v] by (simp add: take_bit_int_eq_self)
  have "uint (ucast (take_bit 2 (drop_bit 6 v)) :: uint8) = take_bit 2 (drop_bit 6 (uint v))"
    by (simp add: unsigned_ucast_eq unsigned_take_bit_eq unsigned_drop_bit_eq min_def full)
  also have "\<dots> = drop_bit 6 (take_bit 8 (uint v))"
    by (simp add: drop_bit_take_bit)
  also have "take_bit 8 (uint v) = take_bit 8 (sint v)"
    by (simp add: sint_uint take_bit_signed_take_bit)
  finally show ?thesis
    by (simp add: take_bit_eq_mod drop_bit_eq_div)
qed

subsection \<open>The low bits of bytes 0 and 3\<close>

lemma byte0_x_bits:
  fixes vx vy lmb rmb :: cint
  assumes "4 \<le> L" "4 \<le> R"
  shows "((0x40 OR ucast (push_bit L lmb) OR ucast (push_bit R rmb)
           OR ucast (drop_bit 6 (vx AND 0xc0))
           OR ucast (drop_bit 4 (vy AND 0xc0))) :: uint8) AND 0x03
         = ucast (take_bit 2 (drop_bit 6 vx))"
  using assms unfolding cint_c0_mask byte_03_mask
  by (intro bit_word_eqI) (auto simp: bit_simps bit_64_int)

lemma byte0_y_bits:
  fixes vx vy lmb rmb :: cint
  assumes "4 \<le> L" "4 \<le> R"
  shows "drop_bit 2 (((0x40 OR ucast (push_bit L lmb) OR ucast (push_bit R rmb)
           OR ucast (drop_bit 6 (vx AND 0xc0))
           OR ucast (drop_bit 4 (vy AND 0xc0))) :: uint8) AND 0x0c)
         = ucast (take_bit 2 (drop_bit 6 vy))"
  using assms unfolding cint_c0_mask byte_0c_mask
  by (intro bit_word_eqI) (auto simp: bit_simps bit_64_int bit_16_int)

lemma byte3_wheel_bits:
  fixes w mmb :: cint
  assumes "4 \<le> M \<or> mmb = 0"
  shows "((ucast (push_bit M mmb) OR ucast (- w AND 0x0f)) :: uint8) AND 0x0f
         = ucast (- w AND 0x0f)"
  using assms unfolding cint_0f_mask byte_0f_mask
  by (intro bit_word_eqI) (auto simp: bit_simps)

text \<open>
  C2. For every accumulator state (clamped or not) whose packet is the template
  \<open>0x40, 0x00, 0x00, 0x00\<close>, the encoder leaves in byte 1 the value \<open>x & 0x3F\<close>, the low six
  bits of the two's complement of \<open>x\<close>, in byte 2 the same of \<open>y\<close>, and in byte 0 the value
  \<open>0x40\<close> or'ed with the two button bits, with \<open>(x & 0xC0) >> 6\<close> and with \<open>(y & 0xC0) >> 4\<close>.
  When the button bits of the header lie above bit 3, bits 1-0 of byte 0 are the top two bits
  of the 8-bit two's complement of \<open>x\<close> and bits 3-2 those of \<open>y\<close>.
\<close>

theorem encode_movement_bytes:
  assumes "mouse_state mouse = [0x40, 0x00, 0x00, 0x00]"
  shows "mouse_state (encode h mouse) ! 1 = ucast (mouse_x mouse AND 0x3f) \<and>
         uint (mouse_state (encode h mouse) ! 1) = sint (mouse_x mouse) mod 64 \<and>
         mouse_state (encode h mouse) ! 2 = ucast (mouse_y mouse AND 0x3f) \<and>
         uint (mouse_state (encode h mouse) ! 2) = sint (mouse_y mouse) mod 64 \<and>
         mouse_state (encode h mouse) ! 0 =
           0x40 OR ucast (push_bit (MOUSE_LMB_BIT h) (mouse_lmb mouse))
                OR ucast (push_bit (MOUSE_RMB_BIT h) (mouse_rmb mouse))
                OR ucast (drop_bit 6 (mouse_x mouse AND 0xc0))
                OR ucast (drop_bit 4 (mouse_y mouse AND 0xc0)) \<and>
         (4 \<le> MOUSE_LMB_BIT h \<and> 4 \<le> MOUSE_RMB_BIT h \<longrightarrow>
            uint (mouse_state (encode h mouse) ! 0 AND 0x03)
              = (sint (mouse_x mouse) mod 256) div 64 \<and>
            uint (drop_bit 2 (mouse_state (encode h mouse) ! 0 AND 0x0c))
              = (sint (mouse_y mouse) mod 256) div 64)"
proof -
  note enc = encode_template [OF assms, of h]
  have b1: "mouse_state (encode h mouse) ! 1 = ucast (mouse_x mouse AND 0x3f)"
    by (simp add: enc)
  have b2: "mouse_state (encode h mouse) ! 2 = ucast (mouse_y mouse AND 0x3f)"
    by (simp add: enc)
  have b0: "mouse_state (encode h mouse) ! 0 =
           0x40 OR ucast (push_bit (MOUSE_LMB_BIT h) (mouse_lmb mouse))
                OR ucast (push_bit (MOUSE_RMB_BIT h) (mouse_rmb mouse))
                OR ucast (drop_bit 6 (mouse_x mouse AND 0xc0))
                OR ucast (drop_bit 4 (mouse_y mouse AND 0xc0))"
    by (simp add: enc)
  have top: "uint (mouse_state (encode h mouse) ! 0 AND 0x03)
              = (sint (mouse_x mouse) mod 256) div 64 \<and>
            uint (drop_bit 2 (mouse_state (encode h mouse) ! 0 AND 0x0c))
              = (sint (mouse_y mouse) mod 256) div 64"
    if "4 \<le> MOUSE_LMB_BIT h" "4 \<le> MOUSE_RMB_BIT h"
    unfolding b0 byte0_x_bits [OF that] byte0_y_bits [OF that] top2_uint by simp
  show ?thesis
    using b0 top by (simp only: b1 b2 low6_uint) simp
qed

text \<open>
  The example of the claim: \<open>x = 5\<close>, \<open>y = -3\<close>, left button down. Byte 1 is \<open>5 & 0x3F = 5\<close>,
  byte 2 is \<open>(-3) & 0x3F = 61\<close>, the top bits are 0 for \<open>x\<close> and 3 for \<open>y\<close>.
\<close>

theorem encode_movement_bytes_witness:
  "mouse_state moved_mouse = [0x40, 0x00, 0x00, 0x00] \<and>
   4 \<le> MOUSE_LMB_BIT example_serial_h \<and> 4 \<le> MOUSE_RMB_BIT example_serial_h \<and>
   mouse_state (encode example_serial_h moved_mouse) ! 0 = 0x6C \<and>
   mouse_state (encode example_serial_h moved_mouse) ! 1 = 5 \<and>
   mouse_state (encode example_serial_h moved_mouse) ! 2 = 61 \<and>
   uint (mouse_state (encode example_serial_h moved_mouse) ! 0 AND 0x03) = 0 \<and>
   uint (drop_bit 2 (mouse_state (encode example_serial_h moved_mouse) ! 0 AND 0x0c)) = 3"
  using encode_movement_bytes [of moved_mouse example_serial_h]
  by (simp add: moved_mouse_def idle_mouse_def example_serial_h_def)

text \<open>
  C3. For every wheel count \<open>w\<close> (in \<open>[-15, 15]\<close> or not), with the packet at its template and
  the middle-button bit of the header above bit 3 (or the middle button up), the low four bits
  of byte 3 are \<open>(-w) & 0x0F\<close>, that is \<open>-w\<close> modulo 16: 13 for \<open>w = 3\<close> and 3 for \<open>w = -3\<close>.
\<close>

theorem encode_wheel_nibble:
  assumes "mouse_state mouse = [0x40, 0x00, 0x00, 0x00]"
    and "4 \<le> MOUSE_MMB_BIT h \<or> mouse_mmb mouse = 0"
  shows "mouse_state (encode h mouse) ! 3 AND 0x0f = ucast (- mouse_wheel mouse AND 0x0f) \<and>
         uint (mouse_state (encode h mouse) ! 3 AND 0x0f) = (- sint (mouse_wheel mouse)) mod 16"
proof -
  have b3: "mouse_state (encode h mouse) ! 3 =
      ucast (push_bit (MOUSE_MMB_BIT h) (mouse_mmb mouse))
        OR ucast (- mouse_wheel mouse AND 0x0f)"
    by (simp add: encode_template [OF assms(1), of h])
  show ?thesis
    unfolding b3 byte3_wheel_bits [OF assms(2)] wheel_nibble_uint by simp
qed

theorem encode_wheel_nibble_witness:
  "mouse_state (idle_mouse\<lparr>mouse_wheel := 3\<rparr>) = [0x40, 0x00, 0x00, 0x00] \<and>
   4 \<le> MOUSE_MMB_BIT example_serial_h \<and>
   mouse_state (encode example_serial_h (idle_mouse\<lparr>mouse_wheel := 3\<rparr>)) ! 3 AND 0x0f = 13 \<and>
   mouse_state (encode example_serial_h (idle_mouse\<lparr>mouse_wheel := - 3\<rparr>)) ! 3 AND 0x0f = 3"
  using encode_wheel_nibble [of "idle_mouse\<lparr>mouse_wheel := 3\<rparr>" example_serial_h]
    encode_wheel_nibble [of "idle_mouse\<lparr>mouse_wheel := - 3\<rparr>" example_serial_h]
  by (simp add: idle_mouse_def example_serial_h_def)

end
